theory Spec2Isabelle
  imports Complex_Main
begin

section \<open>JavaScript values\<close>

text \<open>
  The server receives its tool arguments and its upstream payloads as parsed JSON, and
  reads absent properties as \<open>undefined\<close>. A JavaScript number is an IEEE double: a
  finite one is embedded as the rational it denotes (\<open>-0\<close> as \<open>0\<close>).
\<close>

datatype number = NaN | PosInfinity | NegInfinity | Finite rat

datatype jsval =
    JUndefined
  | JNull
  | JBool bool
  | JNum number
  | JStr string
  | JArr "jsval list"
  | JObj "(string \<times> jsval) list"

text \<open>\<open>typeof\<close>, on each kind of value (\<open>null\<close> and arrays are objects to it).\<close>

fun typeof :: "jsval \<Rightarrow> string" where
  "typeof JUndefined = ''undefined''"
| "typeof JNull = ''object''"
| "typeof (JBool b) = ''boolean''"
| "typeof (JNum n) = ''number''"
| "typeof (JStr s) = ''string''"
| "typeof (JArr xs) = ''object''"
| "typeof (JObj kvs) = ''object''"

text \<open>
  \<open>truthy v\<close> is the boolean coercion that \<open>!v\<close> and \<open>v || w\<close> apply: \<open>undefined\<close>,
  \<open>null\<close>, \<open>false\<close>, \<open>0\<close>, \<open>NaN\<close> and the empty string are falsy, every other value
  (every array and object too) is truthy.
\<close>

fun truthy :: "jsval \<Rightarrow> bool" where
  "truthy JUndefined = False"
| "truthy JNull = False"
| "truthy (JBool b) = b"
| "truthy (JNum NaN) = False"
| "truthy (JNum (Finite r)) = (r \<noteq> 0)"
| "truthy (JNum n) = True"
| "truthy (JStr s) = (s \<noteq> [])"
| "truthy (JArr xs) = True"
| "truthy (JObj kvs) = True"

text \<open>\<open>a || b\<close> and \<open>a ?? b\<close>.\<close>

definition js_or :: "jsval \<Rightarrow> jsval \<Rightarrow> jsval" where
  "js_or a b = (if truthy a then a else b)"

definition nullish :: "jsval \<Rightarrow> jsval \<Rightarrow> jsval" where
  "nullish a b = (if a = JUndefined \<or> a = JNull then b else a)"

text \<open>
  \<open>field v k\<close> is the property read \<open>v?.k\<close> for the property names the server reads
  (\<open>query\<close>, \<open>kb\<close>, \<open>numResults\<close>, \<open>prompt\<close>, \<open>address\<close>, \<open>chainId\<close>, \<open>kbId\<close>,
  \<open>error\<close>): none of them is a built-in property of strings, numbers, booleans or
  arrays, so only an object that holds the key gives a value other than \<open>undefined\<close>.
  Every read of the source is either optional (\<open>?.\<close>) or made on a value already known
  not to be \<open>null\<close> or \<open>undefined\<close>, so no read throws.
\<close>

fun field :: "jsval \<Rightarrow> string \<Rightarrow> jsval" where
  "field (JObj kvs) k = (case map_of kvs k of Some v \<Rightarrow> v | None \<Rightarrow> JUndefined)"
| "field v k = JUndefined"

text \<open>
  Two built-ins of the language are parameters of the model: \<open>JSON.stringify(v, null, 2)\<close>
  and the conversion to a string that a template literal applies to a value that is not
  a string already.
\<close>

record runtime =
  JSON_stringify :: "jsval \<Rightarrow> string"
  ToString :: "jsval \<Rightarrow> string"

definition template :: "runtime \<Rightarrow> jsval \<Rightarrow> string" where
  "template rt v = (case v of JStr s \<Rightarrow> s | _ \<Rightarrow> ToString rt v)"

text \<open>Arrays: \<open>unshift\<close>, \<open>pop\<close> and the read \<open>xs[i]\<close>, \<open>undefined\<close> out of range.\<close>

definition unshift :: "'a \<Rightarrow> 'a list \<Rightarrow> 'a list" where
  "unshift x xs = x # xs"

definition pop :: "'a list \<Rightarrow> 'a list" where
  "pop xs = butlast xs"

definition at_index :: "'a list \<Rightarrow> nat \<Rightarrow> 'a option" where
  "at_index xs i = (if i < length xs then Some (xs ! i) else None)"

section \<open>The data of the server\<close>

record CachedSearch =
  query :: jsval
  response :: jsval
  timestamp :: string

definition BASE_URL :: string where
  "BASE_URL = ''https://api.brianknows.org''"

definition PING :: string where
  "PING = ''/api/v0/utils/ping''"

definition AGENT :: string where
  "AGENT = ''/api/v0/agent''"

definition KNOWLEDGE :: string where
  "KNOWLEDGE = ''/api/v0/agent/knowledge''"

definition DEFAULT_KB :: string where
  "DEFAULT_KB = ''public-knowledge-box''"

definition MAX_CACHED_SEARCHES :: nat where
  "MAX_CACHED_SEARCHES = 5"

text \<open>
  What axios is asked for, and what it answers. It resolves with the response on a 2xx
  status; it rejects with an error that holds the response on any other status, and with
  an error that holds no response when the request never got one (a network failure).
\<close>

datatype http_request = Get string | Post string jsval

record axios_response =
  status :: nat
  data :: jsval

record axios_error =
  err_response :: "axios_response option"
  message :: string

datatype axios_outcome = Resolved axios_response | Rejected axios_error

datatype ErrorCode = InvalidRequest | MethodNotFound | InvalidParams

datatype thrown = McpError ErrorCode string | AxiosError axios_error

text \<open>
  What a handler sees of the world while it serves one request: the answer of the
  upstream service to the request it sends, and the clock (\<open>new Date().toISOString()\<close>).
\<close>

record env =
  http :: "http_request \<Rightarrow> axios_outcome"
  now :: string

text \<open>
  The state of \<open>BrianKnowsServer\<close> is its array \<open>recentSearches\<close>. \<open>sent\<close> is the log of
  the requests handed to axios so far, oldest first; the code does not keep it, the model
  does, so that "no upstream call" can be said.
\<close>

record server =
  recentSearches :: "CachedSearch list"
  sent :: "http_request list"

definition init :: server where
  "init = \<lparr>recentSearches = [], sent = []\<rparr>"

text \<open>
  The result of a tool call, \<open>{content: [{type, text}], isError}\<close>. The handlers leave
  \<open>isError\<close> out of a result that is not an error: it is \<open>False\<close> there.
\<close>

record content_item =
  c_type :: string
  c_text :: string

record tool_result =
  content :: "content_item list"
  isError :: bool

record resource_content =
  r_uri :: string
  r_mimeType :: string
  r_text :: string

section \<open>The type guard of the search arguments\<close>

definition isValidSearchArgs :: "jsval \<Rightarrow> bool" where
  "isValidSearchArgs obj \<longleftrightarrow>
     typeof obj = ''object'' \<and>
     obj \<noteq> JNull \<and>
     typeof (field obj ''query'') = ''string'' \<and>
     (field obj ''kb'' = JUndefined \<or> typeof (field obj ''kb'') = ''string'') \<and>
     (field obj ''numResults'' = JUndefined \<or> typeof (field obj ''numResults'') = ''number'')"

section \<open>The resource handlers\<close>

text \<open>
  The pattern \<open>/^brianknows:\/\/searches\/(\d+)$/\<close>: the prefix, then one or more of the
  digits \<open>0\<close> to \<open>9\<close> (the characters 48 to 57), then the end of the string. The
  match gives the digits.
\<close>

definition is_digit :: "char \<Rightarrow> bool" where
  "is_digit c \<longleftrightarrow> (48::nat) \<le> of_char c \<and> of_char c \<le> (57::nat)"

definition match_uri :: "string \<Rightarrow> string option" where
  "match_uri uri =
     (let p = ''brianknows://searches/''; ds = drop (length p) uri
      in if take (length p) uri = p \<and> ds \<noteq> [] \<and> list_all is_digit ds
         then Some ds else None)"

text \<open>
  \<open>parseInt\<close> on a string of decimal digits. The double it returns is the exact value
  below \<open>2^53\<close>; an array has fewer than \<open>2^32\<close> elements, so a rounded value is out of
  range exactly when the exact one is.
\<close>

definition digit_val :: "char \<Rightarrow> nat" where
  "digit_val c = of_char c - 48"

definition parseInt :: "string \<Rightarrow> nat" where
  "parseInt ds = foldl (\<lambda>a c. 10 * a + digit_val c) 0 ds"

text \<open>
  The index inside the message of the error is a number in a template literal: the
  runtime's conversion, of the double nearest to the value.
\<close>

definition index_label :: "runtime \<Rightarrow> nat \<Rightarrow> string" where
  "index_label rt i = ToString rt (JNum (Finite (of_nat i)))"

definition readResource :: "runtime \<Rightarrow> string \<Rightarrow> server \<Rightarrow> thrown + resource_content list" where
  "readResource rt uri s =
     (case match_uri uri of
        None \<Rightarrow> Inl (McpError InvalidRequest (''Unknown resource: '' @ uri))
      | Some ds \<Rightarrow>
          (let index = parseInt ds in
           case at_index (recentSearches s) index of
             None \<Rightarrow> Inl (McpError InvalidRequest
                            (''Search result not found: '' @ index_label rt index))
           | Some search \<Rightarrow>
               Inr [\<lparr>r_uri = uri,
                     r_mimeType = ''application/json'',
                     r_text = JSON_stringify rt (response search)\<rparr>]))"

section \<open>The tool handlers\<close>

text \<open>The result \<open>{content: [{type: "text", text: t}]}\<close> that the three handlers return.\<close>

definition text_result :: "string \<Rightarrow> tool_result" where
  "text_result t = \<lparr>content = [\<lparr>c_type = ''text'', c_text = t\<rparr>], isError = False\<rparr>"

definition handlePing :: "runtime \<Rightarrow> env \<Rightarrow> server \<Rightarrow> (thrown + tool_result) \<times> server" where
  "handlePing rt e s =
     (let s1 = s\<lparr>sent := sent s @ [Get PING]\<rparr> in
      case http e (Get PING) of
        Rejected err \<Rightarrow> (Inl (AxiosError err), s1)
      | Resolved res \<Rightarrow> (Inr (text_result (JSON_stringify rt (data res))), s1))"

text \<open>The object literals \<open>searchRequest\<close> and \<open>agentRequest\<close> of the two handlers.\<close>

definition searchRequest :: "jsval \<Rightarrow> jsval" where
  "searchRequest args =
     JObj [(''prompt'', field args ''query''),
           (''kb'', js_or (field args ''kb'') (JStr DEFAULT_KB))]"

definition agentRequest :: "jsval \<Rightarrow> jsval" where
  "agentRequest args =
     JObj [(''prompt'', field args ''prompt''),
           (''address'', js_or (field args ''address'')
                           (JStr ''0x0000000000000000000000000000000000000000'')),
           (''chainId'', field args ''chainId''),
           (''kbId'', js_or (field args ''kbId'') (JStr DEFAULT_KB))]"

definition handleSearch ::
  "runtime \<Rightarrow> env \<Rightarrow> jsval \<Rightarrow> server \<Rightarrow> (thrown + tool_result) \<times> server" where
  "handleSearch rt e args s =
     (let s1 = s\<lparr>sent := sent s @ [Post KNOWLEDGE (searchRequest args)]\<rparr> in
      case http e (Post KNOWLEDGE (searchRequest args)) of
        Rejected err \<Rightarrow> (Inl (AxiosError err), s1)
      | Resolved res \<Rightarrow>
          (let cached = unshift \<lparr>query = field (searchRequest args) ''prompt'',
                                 response = data res,
                                 timestamp = now e\<rparr> (recentSearches s1);
               kept = (if length cached > MAX_CACHED_SEARCHES then pop cached else cached)
           in (Inr (text_result (JSON_stringify rt (data res))),
               s1\<lparr>recentSearches := kept\<rparr>)))"

definition handleAgent ::
  "runtime \<Rightarrow> env \<Rightarrow> jsval \<Rightarrow> server \<Rightarrow> (thrown + tool_result) \<times> server" where
  "handleAgent rt e args s =
     (let s1 = s\<lparr>sent := sent s @ [Post AGENT (agentRequest args)]\<rparr> in
      case http e (Post AGENT (agentRequest args)) of
        Rejected err \<Rightarrow> (Inl (AxiosError err), s1)
      | Resolved res \<Rightarrow>
          (let cached = unshift \<lparr>query = field (agentRequest args) ''prompt'',
                                 response = data res,
                                 timestamp = now e\<rparr> (recentSearches s1);
               kept = (if length cached > MAX_CACHED_SEARCHES then pop cached else cached)
           in (Inr (text_result (JSON_stringify rt (data res))),
               s1\<lparr>recentSearches := kept\<rparr>)))"

text \<open>
  The handler of a tool call (its \<open>console.log\<close> of the request is left out). \<open>name\<close> is
  \<open>request.params.name\<close>, \<open>args\<close> is \<open>request.params.arguments\<close> (\<open>undefined\<close> when the
  request has none). \<open>try_block\<close> is the body of its \<open>try\<close>: it routes by tool name and
  validates. \<open>catch_block\<close> is its \<open>catch\<close>: an axios error becomes a result marked
  \<open>isError\<close>, every other error is thrown on. \<open>error_data err\<close> is \<open>err.response?.data\<close>.
\<close>

definition error_data :: "axios_error \<Rightarrow> jsval" where
  "error_data err = (case err_response err of None \<Rightarrow> JUndefined | Some res \<Rightarrow> data res)"

definition try_block ::
  "runtime \<Rightarrow> env \<Rightarrow> string \<Rightarrow> jsval \<Rightarrow> server \<Rightarrow> (thrown + tool_result) \<times> server" where
  "try_block rt e name args s =
     (if name = ''ping'' then handlePing rt e s
      else if name = ''search'' then
        (if \<not> isValidSearchArgs args
         then (Inl (McpError InvalidParams ''Invalid search arguments''), s)
         else handleSearch rt e args s)
      else if name = ''agent'' then
        (if \<not> truthy (field args ''prompt'')
         then (Inl (McpError InvalidParams ''Missing required 'prompt' parameter''), s)
         else handleAgent rt e args s)
      else (Inl (McpError MethodNotFound (''Unknown tool: '' @ name)), s))"

definition catch_block :: "runtime \<Rightarrow> thrown \<Rightarrow> thrown + tool_result" where
  "catch_block rt error =
     (case error of
        AxiosError err \<Rightarrow>
          Inr \<lparr>content =
                 [\<lparr>c_type = ''text'',
                   c_text = ''Brian API error: '' @
                     template rt (nullish (field (error_data err) ''error'')
                                    (JStr (message err)))\<rparr>],
               isError = True\<rparr>
      | McpError code msg \<Rightarrow> Inl error)"

definition callTool ::
  "runtime \<Rightarrow> env \<Rightarrow> string \<Rightarrow> jsval \<Rightarrow> server \<Rightarrow> (thrown + tool_result) \<times> server" where
  "callTool rt e name args s =
     (case try_block rt e name args s of
        (Inl error, s') \<Rightarrow> (catch_block rt error, s')
      | (Inr result, s') \<Rightarrow> (Inr result, s'))"

section \<open>Sequences of tool calls\<close>

text \<open>
  One tool call as the server meets it: the tool name and the arguments of the request,
  and the world it is served in. The server handles one request to completion before the
  next, so a run of calls threads the state through \<open>callTool\<close>, whatever each call
  returned or threw.
\<close>

record tool_call =
  c_env :: env
  c_name :: string
  c_args :: jsval

definition step :: "runtime \<Rightarrow> tool_call \<Rightarrow> server \<Rightarrow> (thrown + tool_result) \<times> server" where
  "step rt c s = callTool rt (c_env c) (c_name c) (c_args c) s"

fun run :: "runtime \<Rightarrow> tool_call list \<Rightarrow> server \<Rightarrow> server" where
  "run rt [] s = s"
| "run rt (c # cs) s = run rt cs (snd (step rt c s))"

text \<open>
  A successful search or agent call is one that passes the validation of its tool and
  whose upstream request axios resolves; \<open>payload\<close> is the response it got, and
  \<open>recorded\<close> the result the call stands for: the query text, the payload and the time.
\<close>

fun resolved :: "axios_outcome \<Rightarrow> axios_response option" where
  "resolved (Resolved res) = Some res"
| "resolved (Rejected err) = None"

definition payload :: "tool_call \<Rightarrow> axios_response option" where
  "payload c =
     (if c_name c = ''search'' \<and> isValidSearchArgs (c_args c)
      then resolved (http (c_env c) (Post KNOWLEDGE (searchRequest (c_args c))))
      else if c_name c = ''agent'' \<and> truthy (field (c_args c) ''prompt'')
      then resolved (http (c_env c) (Post AGENT (agentRequest (c_args c))))
      else None)"

definition successful :: "tool_call \<Rightarrow> bool" where
  "successful c \<longleftrightarrow> payload c \<noteq> None"

definition recorded :: "tool_call \<Rightarrow> CachedSearch" where
  "recorded c =
     \<lparr>query = (if c_name c = ''search'' then field (c_args c) ''query''
               else field (c_args c) ''prompt''),
      response = data (the (payload c)),
      timestamp = now (c_env c)\<rparr>"

section \<open>Decimal numerals\<close>

text \<open>
  The address of position \<open>n\<close> is \<open>brianknows://searches/\<close> followed by \<open>n\<close> in decimal;
  \<open>decimal n\<close> is that numeral, without leading zeros.
\<close>

definition digit_char :: "nat \<Rightarrow> char" where
  "digit_char d = char_of (48 + d)"

fun decimal :: "nat \<Rightarrow> string" where
  "decimal n = (if n < 10 then [digit_char n] else decimal (n div 10) @ [digit_char (n mod 10)])"

declare decimal.simps [simp del]

section \<open>Concrete inputs\<close>

text \<open>
  A runtime, a world whose upstream answers every request with status 200 and a given
  payload, one whose upstream answers 500 with a given body, and one whose upstream
  cannot be reached.
\<close>

definition demo_runtime :: runtime where
  "demo_runtime = \<lparr>JSON_stringify = (\<lambda>v. ''<json>''), ToString = (\<lambda>v. ''<string>'')\<rparr>"

definition answering :: "jsval \<Rightarrow> string \<Rightarrow> env" where
  "answering d t = \<lparr>http = (\<lambda>req. Resolved \<lparr>status = 200, data = d\<rparr>), now = t\<rparr>"

definition refusing :: "jsval \<Rightarrow> string \<Rightarrow> env" where
  "refusing d t =
     \<lparr>http = (\<lambda>req. Rejected \<lparr>err_response = Some \<lparr>status = 500, data = d\<rparr>,
                                  message = ''Request failed with status code 500''\<rparr>),
      now = t\<rparr>"

definition unreachable :: "string \<Rightarrow> env" where
  "unreachable t =
     \<lparr>http = (\<lambda>req. Rejected \<lparr>err_response = None, message = ''Network Error''\<rparr>),
      now = t\<rparr>"

definition search_call :: "string \<Rightarrow> jsval \<Rightarrow> string \<Rightarrow> tool_call" where
  "search_call q d t =
     \<lparr>c_env = answering d t, c_name = ''search'', c_args = JObj [(''query'', JStr q)]\<rparr>"

definition agent_call :: "string \<Rightarrow> jsval \<Rightarrow> string \<Rightarrow> tool_call" where
  "agent_call q d t =
     \<lparr>c_env = answering d t, c_name = ''agent'', c_args = JObj [(''prompt'', JStr q)]\<rparr>"

text \<open>Six successful calls, search and agent in turn.\<close>

definition six_calls :: "tool_call list" where
  "six_calls =
     [search_call ''q1'' (JStr ''a1'') ''t1'',
      agent_call ''q2'' (JStr ''a2'') ''t2'',
      search_call ''q3'' (JStr ''a3'') ''t3'',
      agent_call ''q4'' (JStr ''a4'') ''t4'',
      search_call ''q5'' (JStr ''a5'') ''t5'',
      agent_call ''q6'' (JStr ''a6'') ''t6'']"

text \<open>A server whose cache holds two results.\<close>

definition two_entries :: server where
  "two_entries =
     \<lparr>recentSearches =
        [\<lparr>query = JStr ''q2'', response = JStr ''a2'', timestamp = ''t2''\<rparr>,
         \<lparr>query = JStr ''q1'', response = JStr ''a1'', timestamp = ''t1''\<rparr>],
      sent = []\<rparr>"

section \<open>One tool call, branch by branch\<close>

lemma try_block_ping: "try_block rt e ''ping'' args s = handlePing rt e s"
  by (simp add: try_block_def)

lemma try_block_search:
  "try_block rt e ''search'' args s =
     (if isValidSearchArgs args then handleSearch rt e args s
      else (Inl (McpError InvalidParams ''Invalid search arguments''), s))"
  by (simp add: try_block_def)

lemma try_block_agent:
  "try_block rt e ''agent'' args s =
     (if truthy (field args ''prompt'') then handleAgent rt e args s
      else (Inl (McpError InvalidParams ''Missing required 'prompt' parameter''), s))"
  by (simp add: try_block_def)

lemma handlePing_rejected:
  "http e (Get PING) = Rejected err \<Longrightarrow>
   handlePing rt e s = (Inl (AxiosError err), s\<lparr>sent := sent s @ [Get PING]\<rparr>)"
  by (simp add: handlePing_def)

lemma handlePing_resolved:
  "http e (Get PING) = Resolved res \<Longrightarrow>
   handlePing rt e s =
     (Inr (text_result (JSON_stringify rt (data res))), s\<lparr>sent := sent s @ [Get PING]\<rparr>)"
  by (simp add: handlePing_def)

lemma handleSearch_rejected:
  "http e (Post KNOWLEDGE (searchRequest args)) = Rejected err \<Longrightarrow>
   handleSearch rt e args s =
     (Inl (AxiosError err), s\<lparr>sent := sent s @ [Post KNOWLEDGE (searchRequest args)]\<rparr>)"
  by (simp add: handleSearch_def)

lemma handleAgent_rejected:
  "http e (Post AGENT (agentRequest args)) = Rejected err \<Longrightarrow>
   handleAgent rt e args s =
     (Inl (AxiosError err), s\<lparr>sent := sent s @ [Post AGENT (agentRequest args)]\<rparr>)"
  by (simp add: handleAgent_def)

lemma field_searchRequest: "field (searchRequest args) ''prompt'' = field args ''query''"
  by (simp add: searchRequest_def)

lemma field_agentRequest: "field (agentRequest args) ''prompt'' = field args ''prompt''"
  by (simp add: agentRequest_def)

text \<open>The cache after \<open>unshift\<close> and the conditional \<open>pop\<close>.\<close>

lemma kept_eq:
  "(if length (unshift x xs) > MAX_CACHED_SEARCHES then pop (unshift x xs) else unshift x xs) =
   (if 5 \<le> length xs then butlast (x # xs) else x # xs)"
  by (simp add: unshift_def pop_def MAX_CACHED_SEARCHES_def)

lemma handleSearch_resolved:
  "http e (Post KNOWLEDGE (searchRequest args)) = Resolved res \<Longrightarrow>
   handleSearch rt e args s =
     (Inr (text_result (JSON_stringify rt (data res))),
      \<lparr>recentSearches =
         (let x = \<lparr>query = field args ''query'', response = data res, timestamp = now e\<rparr>
          in if 5 \<le> length (recentSearches s) then butlast (x # recentSearches s)
             else x # recentSearches s),
       sent = sent s @ [Post KNOWLEDGE (searchRequest args)]\<rparr>)"
  by (simp add: handleSearch_def Let_def kept_eq field_searchRequest)

lemma handleAgent_resolved:
  "http e (Post AGENT (agentRequest args)) = Resolved res \<Longrightarrow>
   handleAgent rt e args s =
     (Inr (text_result (JSON_stringify rt (data res))),
      \<lparr>recentSearches =
         (let x = \<lparr>query = field args ''prompt'', response = data res, timestamp = now e\<rparr>
          in if 5 \<le> length (recentSearches s) then butlast (x # recentSearches s)
             else x # recentSearches s),
       sent = sent s @ [Post AGENT (agentRequest args)]\<rparr>)"
  by (simp add: handleAgent_def Let_def kept_eq field_agentRequest)

lemma callTool_Inl:
  "try_block rt e name args s = (Inl error, s') \<Longrightarrow>
   callTool rt e name args s = (catch_block rt error, s')"
  by (simp add: callTool_def)

lemma callTool_snd: "snd (callTool rt e name args s) = snd (try_block rt e name args s)"
  by (simp add: callTool_def split: prod.splits sum.splits)

lemma search_resolved:
  assumes "isValidSearchArgs args"
    and "http e (Post KNOWLEDGE (searchRequest args)) = Resolved res"
  shows "callTool rt e ''search'' args s =
     (Inr (text_result (JSON_stringify rt (data res))),
      \<lparr>recentSearches =
         (let x = \<lparr>query = field args ''query'', response = data res, timestamp = now e\<rparr>
          in if 5 \<le> length (recentSearches s) then butlast (x # recentSearches s)
             else x # recentSearches s),
       sent = sent s @ [Post KNOWLEDGE (searchRequest args)]\<rparr>)"
  using assms by (simp add: callTool_def try_block_search handleSearch_resolved)

lemma agent_resolved:
  assumes "truthy (field args ''prompt'')"
    and "http e (Post AGENT (agentRequest args)) = Resolved res"
  shows "callTool rt e ''agent'' args s =
     (Inr (text_result (JSON_stringify rt (data res))),
      \<lparr>recentSearches =
         (let x = \<lparr>query = field args ''prompt'', response = data res, timestamp = now e\<rparr>
          in if 5 \<le> length (recentSearches s) then butlast (x # recentSearches s)
             else x # recentSearches s),
       sent = sent s @ [Post AGENT (agentRequest args)]\<rparr>)"
  using assms by (simp add: callTool_def try_block_agent handleAgent_resolved)

lemma try_block_rejected:
  assumes "name = ''ping'' \<and> req = Get PING \<or>
           name = ''search'' \<and> isValidSearchArgs args \<and> req = Post KNOWLEDGE (searchRequest args) \<or>
           name = ''agent'' \<and> truthy (field args ''prompt'') \<and> req = Post AGENT (agentRequest args)"
    and "http e req = Rejected err"
  shows "try_block rt e name args s = (Inl (AxiosError err), s\<lparr>sent := sent s @ [req]\<rparr>)"
  using assms
  by (elim disjE conjE)
     (simp_all add: try_block_ping try_block_search try_block_agent
        handlePing_rejected handleSearch_rejected handleAgent_rejected)

text \<open>What a call sends upstream, whatever the answer.\<close>

lemma handleSearch_sent:
  "sent (snd (handleSearch rt e args s)) = sent s @ [Post KNOWLEDGE (searchRequest args)]"
  by (cases "http e (Post KNOWLEDGE (searchRequest args))")
     (simp_all add: handleSearch_resolved handleSearch_rejected)

lemma handleAgent_sent:
  "sent (snd (handleAgent rt e args s)) = sent s @ [Post AGENT (agentRequest args)]"
  by (cases "http e (Post AGENT (agentRequest args))")
     (simp_all add: handleAgent_resolved handleAgent_rejected)

lemma search_sent:
  "isValidSearchArgs args \<Longrightarrow>
   sent (snd (callTool rt e ''search'' args s)) = sent s @ [Post KNOWLEDGE (searchRequest args)]"
  by (simp add: callTool_snd try_block_search handleSearch_sent)

lemma agent_sent:
  "truthy (field args ''prompt'') \<Longrightarrow>
   sent (snd (callTool rt e ''agent'' args s)) = sent s @ [Post AGENT (agentRequest args)]"
  by (simp add: callTool_snd try_block_agent handleAgent_sent)

text \<open>The cache after one call of a run: it changes only when the call is successful.\<close>

lemma step_cache:
  "recentSearches (snd (step rt c s)) =
     (case payload c of
        None \<Rightarrow> recentSearches s
      | Some res \<Rightarrow>
          (if 5 \<le> length (recentSearches s)
           then butlast (recorded c # recentSearches s)
           else recorded c # recentSearches s))"
  by (auto simp: step_def callTool_snd try_block_def handlePing_def handleSearch_def
        handleAgent_def payload_def recorded_def Let_def kept_eq
        field_searchRequest field_agentRequest
      split: axios_outcome.splits)

text \<open>The concrete inputs.\<close>

lemmas world_defs = answering_def refusing_def unreachable_def

lemma successful_search_call: "successful (search_call q d t)"
  by (simp add: successful_def payload_def search_call_def answering_def isValidSearchArgs_def)

lemma successful_agent_call: "q \<noteq> [] \<Longrightarrow> successful (agent_call q d t)"
  by (simp add: successful_def payload_def agent_call_def answering_def)

lemma recorded_search_call:
  "recorded (search_call q d t) = \<lparr>query = JStr q, response = d, timestamp = t\<rparr>"
  by (simp add: recorded_def payload_def search_call_def answering_def isValidSearchArgs_def)

lemma recorded_agent_call:
  "q \<noteq> [] \<Longrightarrow> recorded (agent_call q d t) = \<lparr>query = JStr q, response = d, timestamp = t\<rparr>"
  by (simp add: recorded_def payload_def agent_call_def answering_def)

section \<open>The cache keeps the five most recent results\<close>

lemma kept_take:
  "length xs \<le> 5 \<Longrightarrow>
   (if 5 \<le> length xs then butlast (x # xs) else x # xs) = take 5 (x # xs)"
proof (cases "length xs = 5")
  case True
  then have "butlast (x # xs) = take 5 (x # xs)"
    by (simp add: butlast_conv_take)
  with True show ?thesis by simp
next
  case False
  assume "length xs \<le> 5"
  with False show ?thesis by simp
qed

lemma take_append_take: "take n (xs @ take n ys) = take n (xs @ ys)"
  by (simp add: min_def)

text \<open>
  After any calls at all, from a cache of at most five entries: the results of the
  successful ones are in front, newest first, and the whole is cut at five.
\<close>

lemma run_cache:
  "length (recentSearches s) \<le> 5 \<Longrightarrow>
   recentSearches (run rt cs s) =
     take 5 (rev (map recorded (filter successful cs)) @ recentSearches s)"
proof (induction cs arbitrary: s)
  case Nil
  then show ?case by simp
next
  case (Cons c cs)
  show ?case
  proof (cases "payload c")
    case None
    then have same: "recentSearches (snd (step rt c s)) = recentSearches s"
      by (simp add: step_cache)
    from None have "\<not> successful c" by (simp add: successful_def)
    with Cons same show ?thesis by simp
  next
    case (Some res)
    then have pushed: "recentSearches (snd (step rt c s)) = take 5 (recorded c # recentSearches s)"
      using kept_take [OF Cons.prems, of "recorded c"] by (simp only: step_cache option.case)
    from Some have ok: "successful c" by (simp add: successful_def)
    have "length (recentSearches (snd (step rt c s))) \<le> 5"
      by (simp add: pushed)
    then have "recentSearches (run rt cs (snd (step rt c s))) =
        take 5 (rev (map recorded (filter successful cs)) @ take 5 (recorded c # recentSearches s))"
      using Cons.IH pushed by simp
    also have "\<dots> = take 5 (rev (map recorded (filter successful cs)) @ recorded c # recentSearches s)"
      by (rule take_append_take)
    finally show ?thesis using ok by simp
  qed
qed

text \<open>
  C1. The server starts with an empty cache. After any sequence of tool calls the cache
  holds at most 5 entries: the results of the most recent successful search and agent
  calls, newest first. So after a sequence of successful search and agent calls it is the
  results of the last 5 of them (of all of them when there were fewer), newest first, and
  after more than 5 such calls it holds exactly 5.
\<close>

theorem recent_cache_five_newest_first:
  "length (recentSearches (run rt cs init)) \<le> 5 \<and>
   recentSearches (run rt cs init) = take 5 (rev (map recorded (filter successful cs))) \<and>
   (list_all successful cs \<longrightarrow>
      recentSearches (run rt cs init) = take 5 (rev (map recorded cs)) \<and>
      (5 < length cs \<longrightarrow> length (recentSearches (run rt cs init)) = 5))"
proof -
  have all: "recentSearches (run rt cs init) = take 5 (rev (map recorded (filter successful cs)))"
    by (simp add: run_cache init_def)
  have "filter successful cs = cs" if "list_all successful cs"
    using that by (simp add: list_all_iff)
  with all show ?thesis by auto
qed

theorem recent_cache_five_newest_first_witness:
  "list_all successful six_calls \<and> 5 < length six_calls \<and>
   recentSearches (run demo_runtime six_calls init) =
     [\<lparr>query = JStr ''q6'', response = JStr ''a6'', timestamp = ''t6''\<rparr>,
      \<lparr>query = JStr ''q5'', response = JStr ''a5'', timestamp = ''t5''\<rparr>,
      \<lparr>query = JStr ''q4'', response = JStr ''a4'', timestamp = ''t4''\<rparr>,
      \<lparr>query = JStr ''q3'', response = JStr ''a3'', timestamp = ''t3''\<rparr>,
      \<lparr>query = JStr ''q2'', response = JStr ''a2'', timestamp = ''t2''\<rparr>]"
proof -
  have ok: "list_all successful six_calls"
    by (simp add: six_calls_def successful_search_call successful_agent_call)
  show ?thesis
    using ok recent_cache_five_newest_first [of demo_runtime six_calls]
    by (simp add: six_calls_def recorded_search_call recorded_agent_call)
qed

section \<open>Reading a resource\<close>

lemma match_uri_Some:
  "ds \<noteq> [] \<Longrightarrow> list_all is_digit ds \<Longrightarrow> match_uri (''brianknows://searches/'' @ ds) = Some ds"
  by (simp add: match_uri_def)

lemma match_uri_unfold:
  "p = ''brianknows://searches/'' \<Longrightarrow>
   match_uri uri =
     (if take (length p) uri = p \<and> drop (length p) uri \<noteq> [] \<and>
         list_all is_digit (drop (length p) uri)
      then Some (drop (length p) uri) else None)"
  by (simp add: match_uri_def Let_def)

lemma match_uri_None:
  assumes no: "\<not> (\<exists>ds. uri = ''brianknows://searches/'' @ ds \<and> ds \<noteq> [] \<and> list_all is_digit ds)"
  shows "match_uri uri = None"
proof -
  define p where "p = ''brianknows://searches/''"
  have "\<not> (take (length p) uri = p \<and> drop (length p) uri \<noteq> [] \<and>
            list_all is_digit (drop (length p) uri))"
  proof
    assume m: "take (length p) uri = p \<and> drop (length p) uri \<noteq> [] \<and>
               list_all is_digit (drop (length p) uri)"
    have "uri = take (length p) uri @ drop (length p) uri" by simp
    with m have "uri = p @ drop (length p) uri" by simp
    with m no show False unfolding p_def by blast
  qed
  then show ?thesis
    by (simp only: match_uri_unfold [OF p_def] if_False)
qed

lemma parseInt_snoc: "parseInt (ds @ [c]) = 10 * parseInt ds + digit_val c"
  by (simp add: parseInt_def)

lemma digit_val_digit_char: "d < 10 \<Longrightarrow> digit_val (digit_char d) = d"
  by (simp add: digit_val_def digit_char_def)

lemma is_digit_digit_char: "d < 10 \<Longrightarrow> is_digit (digit_char d)"
  by (simp add: is_digit_def digit_char_def)

lemma parseInt_decimal: "parseInt (decimal n) = n"
proof (induction n rule: decimal.induct)
  case (1 n)
  show ?case
  proof (cases "n < 10")
    case True
    then show ?thesis
      by (simp add: decimal.simps [of n] parseInt_def digit_val_digit_char)
  next
    case False
    with "1" have "parseInt (decimal (n div 10)) = n div 10" by simp
    with False show ?thesis
      by (simp add: decimal.simps [of n] parseInt_snoc digit_val_digit_char)
  qed
qed

lemma decimal_digits: "decimal n \<noteq> [] \<and> list_all is_digit (decimal n)"
proof (induction n rule: decimal.induct)
  case (1 n)
  show ?case
  proof (cases "n < 10")
    case True
    then show ?thesis
      by (simp add: decimal.simps [of n] is_digit_digit_char)
  next
    case False
    with "1" have "list_all is_digit (decimal (n div 10))" by simp
    with False show ?thesis
      by (simp add: decimal.simps [of n] is_digit_digit_char)
  qed
qed

lemma readResource_digits:
  "ds \<noteq> [] \<Longrightarrow> list_all is_digit ds \<Longrightarrow>
   readResource rt (''brianknows://searches/'' @ ds) s =
     (if parseInt ds < length (recentSearches s)
      then Inr [\<lparr>r_uri = ''brianknows://searches/'' @ ds,
                 r_mimeType = ''application/json'',
                 r_text = JSON_stringify rt (response (recentSearches s ! parseInt ds))\<rparr>]
      else Inl (McpError InvalidRequest
                  (''Search result not found: '' @ index_label rt (parseInt ds))))"
  by (simp add: readResource_def match_uri_Some at_index_def Let_def del: append.simps)

text \<open>
  C2. An address that is not \<open>brianknows://searches/\<close> followed by one or more decimal
  digits, and an address whose digits give an index at or beyond the length of the cache,
  are answered with an \<open>InvalidRequest\<close> error (a value of the handler, no crash). Every
  other address returns the response payload of the cache entry at that index, as
  \<open>JSON.stringify\<close> renders it. The digits are read in decimal: the address of position
  \<open>n\<close> reads entry \<open>n\<close>.
\<close>

theorem read_resource_by_position:
  "(\<not> (\<exists>ds. uri = ''brianknows://searches/'' @ ds \<and> ds \<noteq> [] \<and> list_all is_digit ds) \<longrightarrow>
      readResource rt uri s = Inl (McpError InvalidRequest (''Unknown resource: '' @ uri))) \<and>
   (ds \<noteq> [] \<and> list_all is_digit ds \<and> length (recentSearches s) \<le> parseInt ds \<longrightarrow>
      readResource rt (''brianknows://searches/'' @ ds) s =
        Inl (McpError InvalidRequest
               (''Search result not found: '' @ index_label rt (parseInt ds)))) \<and>
   (ds \<noteq> [] \<and> list_all is_digit ds \<and> parseInt ds < length (recentSearches s) \<longrightarrow>
      readResource rt (''brianknows://searches/'' @ ds) s =
        Inr [\<lparr>r_uri = ''brianknows://searches/'' @ ds,
               r_mimeType = ''application/json'',
               r_text = JSON_stringify rt (response (recentSearches s ! parseInt ds))\<rparr>]) \<and>
   parseInt (decimal n) = n \<and>
   (n < length (recentSearches s) \<longrightarrow>
      readResource rt (''brianknows://searches/'' @ decimal n) s =
        Inr [\<lparr>r_uri = ''brianknows://searches/'' @ decimal n,
               r_mimeType = ''application/json'',
               r_text = JSON_stringify rt (response (recentSearches s ! n))\<rparr>]) \<and>
   (length (recentSearches s) \<le> n \<longrightarrow>
      (\<exists>msg. readResource rt (''brianknows://searches/'' @ decimal n) s =
          Inl (McpError InvalidRequest msg)))"
proof -
  have a: "\<not> (\<exists>ds. uri = ''brianknows://searches/'' @ ds \<and> ds \<noteq> [] \<and> list_all is_digit ds) \<longrightarrow>
      readResource rt uri s = Inl (McpError InvalidRequest (''Unknown resource: '' @ uri))"
    using match_uri_None [of uri] by (simp add: readResource_def)
  have b: "ds \<noteq> [] \<and> list_all is_digit ds \<and> length (recentSearches s) \<le> parseInt ds \<longrightarrow>
      readResource rt (''brianknows://searches/'' @ ds) s =
        Inl (McpError InvalidRequest
               (''Search result not found: '' @ index_label rt (parseInt ds)))"
    using readResource_digits [of ds rt s] by simp
  have c: "ds \<noteq> [] \<and> list_all is_digit ds \<and> parseInt ds < length (recentSearches s) \<longrightarrow>
      readResource rt (''brianknows://searches/'' @ ds) s =
        Inr [\<lparr>r_uri = ''brianknows://searches/'' @ ds,
               r_mimeType = ''application/json'',
               r_text = JSON_stringify rt (response (recentSearches s ! parseInt ds))\<rparr>]"
    using readResource_digits [of ds rt s] by simp
  have d: "readResource rt (''brianknows://searches/'' @ decimal n) s =
     (if n < length (recentSearches s)
      then Inr [\<lparr>r_uri = ''brianknows://searches/'' @ decimal n,
                 r_mimeType = ''application/json'',
                 r_text = JSON_stringify rt (response (recentSearches s ! n))\<rparr>]
      else Inl (McpError InvalidRequest
                  (''Search result not found: '' @ index_label rt n)))"
    using readResource_digits [of "decimal n" rt s] decimal_digits [of n]
    by (simp add: parseInt_decimal del: append.simps)
  from a b c d show ?thesis
    by (simp add: parseInt_decimal)
qed

lemma decimal_1: "decimal (Suc 0) = ''1''"
  by code_simp

theorem read_resource_by_position_witness:
  "readResource demo_runtime ''brianknows://tools/1'' two_entries =
     Inl (McpError InvalidRequest ''Unknown resource: brianknows://tools/1'') \<and>
   readResource demo_runtime ''brianknows://searches/2'' two_entries =
     Inl (McpError InvalidRequest
            (''Search result not found: '' @ ToString demo_runtime (JNum (Finite 2)))) \<and>
   readResource demo_runtime ''brianknows://searches/01'' two_entries =
     Inr [\<lparr>r_uri = ''brianknows://searches/01'', r_mimeType = ''application/json'',
            r_text = JSON_stringify demo_runtime (JStr ''a1'')\<rparr>] \<and>
   decimal 1 = ''1'' \<and>
   readResource demo_runtime ''brianknows://searches/1'' two_entries =
     Inr [\<lparr>r_uri = ''brianknows://searches/1'', r_mimeType = ''application/json'',
            r_text = JSON_stringify demo_runtime (JStr ''a1'')\<rparr>]"
  using read_resource_by_position
          [where uri = "''brianknows://tools/1''" and ds = "''2''" and n = 1
             and rt = demo_runtime and s = two_entries]
        read_resource_by_position
          [where uri = "''brianknows://tools/1''" and ds = "''01''" and n = 1
             and rt = demo_runtime and s = two_entries]
  by (simp add: two_entries_def is_digit_def parseInt_def digit_val_def index_label_def
        decimal_1)

section \<open>Upstream failures\<close>

lemma catch_block_axios:
  "catch_block rt (AxiosError err) =
     Inr \<lparr>content =
            [\<lparr>c_type = ''text'',
              c_text = ''Brian API error: '' @
                (case (case err_response err of None \<Rightarrow> JUndefined
                       | Some res \<Rightarrow> field (data res) ''error'') of
                   JUndefined \<Rightarrow> message err
                 | JNull \<Rightarrow> message err
                 | JStr m \<Rightarrow> m
                 | v \<Rightarrow> ToString rt v)\<rparr>],
          isError = True\<rparr>"
proof -
  have "template rt (nullish v (JStr (message err))) =
        (case v of JUndefined \<Rightarrow> message err | JNull \<Rightarrow> message err | JStr m \<Rightarrow> m
         | v \<Rightarrow> ToString rt v)" for v
    by (cases v) (simp_all add: template_def nullish_def)
  moreover have "field (error_data err) ''error'' =
        (case err_response err of None \<Rightarrow> JUndefined | Some res \<Rightarrow> field (data res) ''error'')"
    by (simp add: error_data_def split: option.splits)
  ultimately show ?thesis
    by (simp add: catch_block_def)
qed

text \<open>
  C3. A ping, a valid search or an agent call with a prompt, whose upstream request axios
  rejects (a status outside 2xx, or no response at all), returns a result: it is not
  thrown. The result is marked \<open>isError\<close> and its text is \<open>Brian API error: \<close> followed by
  the \<open>error\<close> field of the body of the upstream response when there is one (a string as
  it is, any other value converted to a string), and by the message of the axios error
  when the response, its body or that field is missing or \<open>null\<close>. The server goes on to
  serve the calls that follow, from the state it had, one more request sent.
\<close>

theorem upstream_failure_is_tool_error:
  assumes "name = ''ping'' \<and> req = Get PING \<or>
           name = ''search'' \<and> isValidSearchArgs args \<and> req = Post KNOWLEDGE (searchRequest args) \<or>
           name = ''agent'' \<and> truthy (field args ''prompt'') \<and> req = Post AGENT (agentRequest args)"
    and "http e req = Rejected err"
  shows "callTool rt e name args s =
           (Inr \<lparr>content =
                   [\<lparr>c_type = ''text'',
                     c_text = ''Brian API error: '' @
                       (case (case err_response err of None \<Rightarrow> JUndefined
                              | Some res \<Rightarrow> field (data res) ''error'') of
                          JUndefined \<Rightarrow> message err
                        | JNull \<Rightarrow> message err
                        | JStr m \<Rightarrow> m
                        | v \<Rightarrow> ToString rt v)\<rparr>],
                 isError = True\<rparr>,
            s\<lparr>sent := sent s @ [req]\<rparr>) \<and>
         run rt (\<lparr>c_env = e, c_name = name, c_args = args\<rparr> # cs) s =
           run rt cs (s\<lparr>sent := sent s @ [req]\<rparr>)"
proof -
  have one: "callTool rt e name args s =
      (catch_block rt (AxiosError err), s\<lparr>sent := sent s @ [req]\<rparr>)"
    using callTool_Inl [OF try_block_rejected [OF assms]] .
  then have "snd (step rt \<lparr>c_env = e, c_name = name, c_args = args\<rparr> s) =
      s\<lparr>sent := sent s @ [req]\<rparr>"
    by (simp add: step_def)
  with one show ?thesis
    by (simp only: catch_block_axios run.simps simp_thms)
qed

theorem upstream_failure_is_tool_error_witness:
  "callTool demo_runtime (refusing (JObj [(''error'', JStr ''kb not found'')]) ''t'') ''search''
     (JObj [(''query'', JStr ''q'')]) two_entries =
     (Inr \<lparr>content = [\<lparr>c_type = ''text'', c_text = ''Brian API error: kb not found''\<rparr>],
           isError = True\<rparr>,
      two_entries\<lparr>sent := [Post KNOWLEDGE (searchRequest (JObj [(''query'', JStr ''q'')]))]\<rparr>) \<and>
   callTool demo_runtime (unreachable ''t'') ''ping'' JUndefined two_entries =
     (Inr \<lparr>content = [\<lparr>c_type = ''text'', c_text = ''Brian API error: Network Error''\<rparr>],
           isError = True\<rparr>,
      two_entries\<lparr>sent := [Get PING]\<rparr>)"
  using upstream_failure_is_tool_error
          [where name = "''search''" and args = "JObj [(''query'', JStr ''q'')]"
             and req = "Post KNOWLEDGE (searchRequest (JObj [(''query'', JStr ''q'')]))"
             and e = "refusing (JObj [(''error'', JStr ''kb not found'')]) ''t''"
             and err = "\<lparr>err_response = Some \<lparr>status = 500,
                                                 data = JObj [(''error'', JStr ''kb not found'')]\<rparr>,
                         message = ''Request failed with status code 500''\<rparr>"
             and rt = demo_runtime and s = two_entries and cs = "[]"]
        upstream_failure_is_tool_error
          [where name = "''ping''" and args = JUndefined and req = "Get PING"
             and e = "unreachable ''t''"
             and err = "\<lparr>err_response = None, message = ''Network Error''\<rparr>"
             and rt = demo_runtime and s = two_entries and cs = "[]"]
  by (simp add: world_defs isValidSearchArgs_def two_entries_def)

text \<open>
  C10. A valid search, or an agent call with a prompt, whose upstream request axios
  rejects leaves the cache as it was. The entry is inserted only after the upstream call
  has returned successfully: a call that changes the cache is a successful search or
  agent call.
\<close>

theorem upstream_failure_keeps_cache:
  "((name = ''search'' \<and> isValidSearchArgs args \<and>
       http e (Post KNOWLEDGE (searchRequest args)) = Rejected err \<or>
     name = ''agent'' \<and> truthy (field args ''prompt'') \<and>
       http e (Post AGENT (agentRequest args)) = Rejected err) \<longrightarrow>
      recentSearches (snd (callTool rt e name args s)) = recentSearches s) \<and>
   (recentSearches (snd (step rt c s)) \<noteq> recentSearches s \<longrightarrow> successful c)"
proof -
  have "recentSearches (snd (callTool rt e ''search'' args s)) = recentSearches s"
    if "isValidSearchArgs args" "http e (Post KNOWLEDGE (searchRequest args)) = Rejected err"
    using that by (simp add: callTool_snd try_block_search handleSearch_rejected)
  moreover have "recentSearches (snd (callTool rt e ''agent'' args s)) = recentSearches s"
    if "truthy (field args ''prompt'')" "http e (Post AGENT (agentRequest args)) = Rejected err"
    using that by (simp add: callTool_snd try_block_agent handleAgent_rejected)
  moreover have "recentSearches (snd (step rt c s)) \<noteq> recentSearches s \<longrightarrow> successful c"
    by (simp add: step_cache successful_def split: option.splits)
  ultimately show ?thesis by blast
qed

theorem upstream_failure_keeps_cache_witness:
  "recentSearches (snd (callTool demo_runtime (unreachable ''t'') ''search''
                          (JObj [(''query'', JStr ''q'')]) two_entries)) =
     recentSearches two_entries \<and>
   recentSearches (snd (callTool demo_runtime (refusing JNull ''t'') ''agent''
                          (JObj [(''prompt'', JStr ''p'')]) two_entries)) =
     recentSearches two_entries"
  using upstream_failure_keeps_cache
          [where name = "''search''" and args = "JObj [(''query'', JStr ''q'')]"
             and e = "unreachable ''t''"
             and err = "\<lparr>err_response = None, message = ''Network Error''\<rparr>"
             and rt = demo_runtime and s = two_entries
             and c = "\<lparr>c_env = unreachable ''t'', c_name = ''ping'', c_args = JUndefined\<rparr>"]
        upstream_failure_keeps_cache
          [where name = "''agent''" and args = "JObj [(''prompt'', JStr ''p'')]"
             and e = "refusing JNull ''t''"
             and err = "\<lparr>err_response = Some \<lparr>status = 500, data = JNull\<rparr>,
                         message = ''Request failed with status code 500''\<rparr>"
             and rt = demo_runtime and s = two_entries
             and c = "\<lparr>c_env = unreachable ''t'', c_name = ''ping'', c_args = JUndefined\<rparr>"]
  by (simp add: world_defs isValidSearchArgs_def)

section \<open>What is forwarded upstream\<close>

text \<open>
  The body of a request is the object literal of the handler. A property whose value is
  \<open>undefined\<close> is left out when the body is serialized: \<open>JUndefined\<close> under a key of the
  body stands for a key that is absent on the wire.
\<close>

lemma valid_kb:
  "isValidSearchArgs args \<Longrightarrow>
   js_or (field args ''kb'') (JStr DEFAULT_KB) =
     (if field args ''kb'' = JUndefined \<or> field args ''kb'' = JStr []
      then JStr ''public-knowledge-box'' else field args ''kb'')"
  by (cases "field args ''kb''") (auto simp: isValidSearchArgs_def js_or_def DEFAULT_KB_def)

text \<open>
  C5. A search call with valid arguments sends one request, to the knowledge endpoint, and
  its body is exactly \<open>{prompt: query, kb}\<close>, where \<open>kb\<close> is the supplied \<open>kb\<close>, or the
  default \<open>public-knowledge-box\<close> when none is supplied (or the empty string is). A number
  given as \<open>numResults\<close> passes the validation and changes nothing of what is sent.
\<close>

theorem search_forwards_prompt_and_kb:
  "(isValidSearchArgs args \<longrightarrow>
      sent (snd (callTool rt e ''search'' args s)) =
        sent s @
        [Post ''/api/v0/agent/knowledge''
           (JObj [(''prompt'', field args ''query''),
                  (''kb'', if field args ''kb'' = JUndefined \<or> field args ''kb'' = JStr []
                           then JStr ''public-knowledge-box'' else field args ''kb'')])]) \<and>
   (isValidSearchArgs (JObj kvs) \<longrightarrow>
      isValidSearchArgs (JObj ((''numResults'', JNum n) # kvs)) \<and>
      sent (snd (callTool rt e ''search'' (JObj ((''numResults'', JNum n) # kvs)) s)) =
      sent (snd (callTool rt e ''search'' (JObj kvs) s)))"
proof -
  have a: "isValidSearchArgs args \<longrightarrow>
      sent (snd (callTool rt e ''search'' args s)) =
        sent s @
        [Post ''/api/v0/agent/knowledge''
           (JObj [(''prompt'', field args ''query''),
                  (''kb'', if field args ''kb'' = JUndefined \<or> field args ''kb'' = JStr []
                           then JStr ''public-knowledge-box'' else field args ''kb'')])]"
    using valid_kb [of args] by (simp add: search_sent searchRequest_def KNOWLEDGE_def)
  have b: "isValidSearchArgs (JObj ((''numResults'', JNum n) # kvs))"
    if "isValidSearchArgs (JObj kvs)"
    using that by (simp add: isValidSearchArgs_def)
  have c: "searchRequest (JObj ((''numResults'', JNum n) # kvs)) = searchRequest (JObj kvs)"
    by (simp add: searchRequest_def)
  from a b c show ?thesis
    by (simp add: search_sent)
qed

theorem search_forwards_prompt_and_kb_witness:
  "isValidSearchArgs (JObj [(''query'', JStr ''What is blockchain?''), (''kb'', JStr ''lido_kb'')]) \<and>
   isValidSearchArgs (JObj [(''numResults'', JNum (Finite 3)),
                            (''query'', JStr ''What is blockchain?''), (''kb'', JStr ''lido_kb'')]) \<and>
   sent (snd (callTool demo_runtime (answering JNull ''t'') ''search''
                (JObj [(''numResults'', JNum (Finite 3)),
                       (''query'', JStr ''What is blockchain?''), (''kb'', JStr ''lido_kb'')]) init)) =
     [Post ''/api/v0/agent/knowledge''
        (JObj [(''prompt'', JStr ''What is blockchain?''), (''kb'', JStr ''lido_kb'')])]"
  using search_forwards_prompt_and_kb
          [where args = "JObj [(''query'', JStr ''What is blockchain?''), (''kb'', JStr ''lido_kb'')]"
             and kvs = "[(''query'', JStr ''What is blockchain?''), (''kb'', JStr ''lido_kb'')]"
             and n = "Finite 3" and rt = demo_runtime and e = "answering JNull ''t''" and s = init]
  by (simp add: isValidSearchArgs_def init_def)

text \<open>
  C4, as stated: a supplied \<open>address\<close> is forwarded in place of the placeholder. It is not
  when the supplied address is the empty string: the placeholder is forwarded.
\<close>

theorem agent_empty_address_counterexample:
  "field (JObj [(''prompt'', JStr ''hi''), (''address'', JStr [])]) ''address'' = JStr [] \<and>
   sent (snd (callTool demo_runtime (answering JNull ''t'') ''agent''
                (JObj [(''prompt'', JStr ''hi''), (''address'', JStr [])]) init)) =
     [Post ''/api/v0/agent''
        (JObj [(''prompt'', JStr ''hi''),
               (''address'', JStr ''0x0000000000000000000000000000000000000000''),
               (''chainId'', JUndefined),
               (''kbId'', JStr ''public-knowledge-box'')])] \<and>
   sent (snd (callTool demo_runtime (answering JNull ''t'') ''agent''
                (JObj [(''prompt'', JStr ''hi''), (''address'', JStr [])]) init)) \<noteq>
     [Post ''/api/v0/agent''
        (JObj [(''prompt'', JStr ''hi''),
               (''address'', JStr []),
               (''chainId'', JUndefined),
               (''kbId'', JStr ''public-knowledge-box'')])]"
  by (simp add: agent_sent agentRequest_def AGENT_def js_or_def DEFAULT_KB_def init_def)

text \<open>
  C4, amended. An agent call with a truthy prompt sends one request, to the agent endpoint,
  with the body \<open>{prompt, address, chainId, kbId}\<close>: \<open>address\<close> is the supplied address when
  it is truthy (a string: when it is not empty) and the all-zero placeholder address
  otherwise, \<open>chainId\<close> is the supplied chainId (absent when not given), \<open>kbId\<close> is the
  supplied kbId when it is truthy and \<open>public-knowledge-box\<close> otherwise. So a call that
  supplies only \<open>prompt\<close> forwards both defaults.
\<close>

theorem agent_forwards_defaults:
  "truthy (field args ''prompt'') \<Longrightarrow>
   sent (snd (callTool rt e ''agent'' args s)) =
     sent s @
     [Post ''/api/v0/agent''
        (JObj [(''prompt'', field args ''prompt''),
               (''address'', if truthy (field args ''address'') then field args ''address''
                             else JStr ''0x0000000000000000000000000000000000000000''),
               (''chainId'', field args ''chainId''),
               (''kbId'', if truthy (field args ''kbId'') then field args ''kbId''
                          else JStr ''public-knowledge-box'')])]"
  by (simp add: agent_sent agentRequest_def AGENT_def js_or_def DEFAULT_KB_def)

theorem agent_forwards_defaults_witness:
  "sent (snd (callTool demo_runtime (answering JNull ''t'') ''agent''
                (JObj [(''prompt'', JStr ''hi'')]) init)) =
     [Post ''/api/v0/agent''
        (JObj [(''prompt'', JStr ''hi''),
               (''address'', JStr ''0x0000000000000000000000000000000000000000''),
               (''chainId'', JUndefined),
               (''kbId'', JStr ''public-knowledge-box'')])] \<and>
   sent (snd (callTool demo_runtime (answering JNull ''t'') ''agent''
                (JObj [(''prompt'', JStr ''hi''), (''address'', JStr ''0xabc''),
                       (''chainId'', JStr ''1''), (''kbId'', JStr ''lido_kb'')]) init)) =
     [Post ''/api/v0/agent''
        (JObj [(''prompt'', JStr ''hi''),
               (''address'', JStr ''0xabc''),
               (''chainId'', JStr ''1''),
               (''kbId'', JStr ''lido_kb'')])]"
  using agent_forwards_defaults
          [where args = "JObj [(''prompt'', JStr ''hi'')]" and rt = demo_runtime
             and e = "answering JNull ''t''" and s = init]
        agent_forwards_defaults
          [where args = "JObj [(''prompt'', JStr ''hi''), (''address'', JStr ''0xabc''),
                               (''chainId'', JStr ''1''), (''kbId'', JStr ''lido_kb'')]"
             and rt = demo_runtime and e = "answering JNull ''t''" and s = init]
  by (simp add: init_def)

section \<open>Validation\<close>

text \<open>
  C6. A search call whose \<open>query\<close> is missing or not a string, or whose \<open>kb\<close> is present
  and not a string, or whose \<open>numResults\<close> is present and not a number, throws an
  \<open>InvalidParams\<close> error and leaves the server as it was: no request is sent upstream and
  the cache is the same.
\<close>

theorem invalid_search_rejected:
  "typeof (field args ''query'') \<noteq> ''string'' \<or>
   (field args ''kb'' \<noteq> JUndefined \<and> typeof (field args ''kb'') \<noteq> ''string'') \<or>
   (field args ''numResults'' \<noteq> JUndefined \<and> typeof (field args ''numResults'') \<noteq> ''number'')
   \<Longrightarrow> callTool rt e ''search'' args s =
         (Inl (McpError InvalidParams ''Invalid search arguments''), s)"
proof -
  assume "typeof (field args ''query'') \<noteq> ''string'' \<or>
   (field args ''kb'' \<noteq> JUndefined \<and> typeof (field args ''kb'') \<noteq> ''string'') \<or>
   (field args ''numResults'' \<noteq> JUndefined \<and> typeof (field args ''numResults'') \<noteq> ''number'')"
  then have "\<not> isValidSearchArgs args"
    unfolding isValidSearchArgs_def by blast
  then have "try_block rt e ''search'' args s =
      (Inl (McpError InvalidParams ''Invalid search arguments''), s)"
    by (simp add: try_block_search)
  then show ?thesis
    by (simp add: callTool_def catch_block_def)
qed

theorem invalid_search_rejected_witness:
  "callTool demo_runtime (answering JNull ''t'') ''search'' (JObj []) two_entries =
     (Inl (McpError InvalidParams ''Invalid search arguments''), two_entries) \<and>
   callTool demo_runtime (answering JNull ''t'') ''search''
     (JObj [(''query'', JStr ''q''), (''numResults'', JStr ''3'')]) two_entries =
     (Inl (McpError InvalidParams ''Invalid search arguments''), two_entries)"
  using invalid_search_rejected
          [where args = "JObj []" and rt = demo_runtime and e = "answering JNull ''t''"
             and s = two_entries]
        invalid_search_rejected
          [where args = "JObj [(''query'', JStr ''q''), (''numResults'', JStr ''3'')]"
             and rt = demo_runtime and e = "answering JNull ''t''" and s = two_entries]
  by simp

text \<open>
  C9. The validation of an agent call looks at the truthiness of \<open>prompt\<close> only. A prompt
  that is not truthy, the empty string among them, is rejected with \<open>InvalidParams\<close>; no
  request is sent and the cache is the same. A truthy prompt of any type, a number for
  one, passes: the request is sent to the agent endpoint with that prompt in its body, and
  no \<open>McpError\<close> is thrown.
\<close>

theorem agent_validation_truthy_prompt:
  "(\<not> truthy (field args ''prompt'') \<longrightarrow>
      callTool rt e ''agent'' args s =
        (Inl (McpError InvalidParams ''Missing required 'prompt' parameter''), s)) \<and>
   (field args ''prompt'' = JStr [] \<longrightarrow>
      callTool rt e ''agent'' args s =
        (Inl (McpError InvalidParams ''Missing required 'prompt' parameter''), s)) \<and>
   (truthy (field args ''prompt'') \<longrightarrow>
      sent (snd (callTool rt e ''agent'' args s)) =
        sent s @ [Post ''/api/v0/agent'' (agentRequest args)] \<and>
      field (agentRequest args) ''prompt'' = field args ''prompt'' \<and>
      (\<forall>code msg. fst (callTool rt e ''agent'' args s) \<noteq> Inl (McpError code msg)))"
proof -
  have rej: "callTool rt e ''agent'' args s =
        (Inl (McpError InvalidParams ''Missing required 'prompt' parameter''), s)"
    if "\<not> truthy (field args ''prompt'')"
    using that by (simp add: callTool_def try_block_agent catch_block_def)
  have fwd: "\<forall>code msg. fst (callTool rt e ''agent'' args s) \<noteq> Inl (McpError code msg)"
    if t: "truthy (field args ''prompt'')"
  proof (cases "http e (Post AGENT (agentRequest args))")
    case (Resolved res)
    then show ?thesis by (simp add: agent_resolved [OF t])
  next
    case (Rejected err)
    then have "try_block rt e ''agent'' args s =
        (Inl (AxiosError err), s\<lparr>sent := sent s @ [Post AGENT (agentRequest args)]\<rparr>)"
      using t by (simp add: try_block_agent handleAgent_rejected)
    then show ?thesis by (simp add: callTool_def catch_block_def)
  qed
  from rej fwd show ?thesis
    by (auto simp: agent_sent field_agentRequest AGENT_def)
qed

theorem agent_validation_truthy_prompt_witness:
  "callTool demo_runtime (answering JNull ''t'') ''agent'' (JObj [(''prompt'', JStr '''')])
     two_entries =
     (Inl (McpError InvalidParams ''Missing required 'prompt' parameter''), two_entries) \<and>
   sent (snd (callTool demo_runtime (answering JNull ''t'') ''agent''
                (JObj [(''prompt'', JNum (Finite 7))]) two_entries)) =
     [Post ''/api/v0/agent'' (agentRequest (JObj [(''prompt'', JNum (Finite 7))]))] \<and>
   field (agentRequest (JObj [(''prompt'', JNum (Finite 7))])) ''prompt'' = JNum (Finite 7)"
  using agent_validation_truthy_prompt
          [where args = "JObj [(''prompt'', JStr '''')]" and rt = demo_runtime
             and e = "answering JNull ''t''" and s = two_entries]
        agent_validation_truthy_prompt
          [where args = "JObj [(''prompt'', JNum (Finite 7))]" and rt = demo_runtime
             and e = "answering JNull ''t''" and s = two_entries]
  by (simp add: two_entries_def)

section \<open>Ping\<close>

text \<open>
  C7. A ping that axios resolves returns the payload of the upstream response as
  \<open>JSON.stringify\<close> renders it, not marked as an error, and leaves the cache as it was:
  the state changes by the one request sent.
\<close>

theorem ping_echoes_and_keeps_cache:
  "http e (Get ''/api/v0/utils/ping'') = Resolved res \<Longrightarrow>
   callTool rt e ''ping'' args s =
     (Inr \<lparr>content = [\<lparr>c_type = ''text'', c_text = JSON_stringify rt (data res)\<rparr>],
           isError = False\<rparr>,
      s\<lparr>sent := sent s @ [Get ''/api/v0/utils/ping'']\<rparr>) \<and>
   recentSearches (snd (callTool rt e ''ping'' args s)) = recentSearches s"
proof -
  assume "http e (Get ''/api/v0/utils/ping'') = Resolved res"
  then have "try_block rt e ''ping'' args s =
     (Inr (text_result (JSON_stringify rt (data res))), s\<lparr>sent := sent s @ [Get PING]\<rparr>)"
    by (simp add: try_block_ping handlePing_resolved PING_def)
  then show ?thesis
    by (simp add: callTool_def text_result_def PING_def)
qed

theorem ping_echoes_and_keeps_cache_witness:
  "callTool demo_runtime (answering (JObj [(''status'', JStr ''ok'')]) ''t'') ''ping'' (JObj [])
     two_entries =
     (Inr \<lparr>content = [\<lparr>c_type = ''text'',
                        c_text = JSON_stringify demo_runtime (JObj [(''status'', JStr ''ok'')])\<rparr>],
           isError = False\<rparr>,
      two_entries\<lparr>sent := [Get ''/api/v0/utils/ping'']\<rparr>) \<and>
   recentSearches (snd (callTool demo_runtime (answering (JObj [(''status'', JStr ''ok'')]) ''t'')
                          ''ping'' (JObj []) two_entries)) =
     recentSearches two_entries"
  using ping_echoes_and_keeps_cache
          [where e = "answering (JObj [(''status'', JStr ''ok'')]) ''t''"
             and res = "\<lparr>status = 200, data = JObj [(''status'', JStr ''ok'')]\<rparr>"
             and rt = demo_runtime and args = "JObj []" and s = two_entries]
  by (simp add: world_defs two_entries_def)

section \<open>Recording, then reading position 0\<close>

lemma kept_head:
  "at_index (if 5 \<le> length xs then butlast (x # xs) else x # xs) 0 = Some x"
  by (cases xs) (simp_all add: at_index_def)

lemma read_first:
  "at_index (recentSearches s) 0 = Some x \<Longrightarrow>
   readResource rt ''brianknows://searches/0'' s =
     Inr [\<lparr>r_uri = ''brianknows://searches/0'', r_mimeType = ''application/json'',
            r_text = JSON_stringify rt (response x)\<rparr>]"
  by (simp add: readResource_def match_uri_def is_digit_def parseInt_def digit_val_def)

text \<open>
  C8. From any state of the cache, after a successful search (or agent) call the entry at
  index 0 is the one just recorded: its query is the \<open>query\<close> (or \<open>prompt\<close>) argument, its
  response the upstream payload, both as they came, and its timestamp the time of the
  call; reading the resource of position 0 returns that payload, serialized.
\<close>

theorem record_then_get_first:
  "(isValidSearchArgs args \<and> http e (Post KNOWLEDGE (searchRequest args)) = Resolved res \<longrightarrow>
      at_index (recentSearches (snd (callTool rt e ''search'' args s))) 0 =
        Some \<lparr>query = field args ''query'', response = data res, timestamp = now e\<rparr> \<and>
      readResource rt ''brianknows://searches/0'' (snd (callTool rt e ''search'' args s)) =
        Inr [\<lparr>r_uri = ''brianknows://searches/0'', r_mimeType = ''application/json'',
               r_text = JSON_stringify rt (data res)\<rparr>]) \<and>
   (truthy (field args ''prompt'') \<and> http e (Post AGENT (agentRequest args)) = Resolved res \<longrightarrow>
      at_index (recentSearches (snd (callTool rt e ''agent'' args s))) 0 =
        Some \<lparr>query = field args ''prompt'', response = data res, timestamp = now e\<rparr> \<and>
      readResource rt ''brianknows://searches/0'' (snd (callTool rt e ''agent'' args s)) =
        Inr [\<lparr>r_uri = ''brianknows://searches/0'', r_mimeType = ''application/json'',
               r_text = JSON_stringify rt (data res)\<rparr>])"
proof -
  have a: "at_index (recentSearches (snd (callTool rt e ''search'' args s))) 0 =
        Some \<lparr>query = field args ''query'', response = data res, timestamp = now e\<rparr>"
    if "isValidSearchArgs args" "http e (Post KNOWLEDGE (searchRequest args)) = Resolved res"
    by (simp add: search_resolved [OF that] Let_def kept_head)
  have b: "at_index (recentSearches (snd (callTool rt e ''agent'' args s))) 0 =
        Some \<lparr>query = field args ''prompt'', response = data res, timestamp = now e\<rparr>"
    if "truthy (field args ''prompt'')" "http e (Post AGENT (agentRequest args)) = Resolved res"
    by (simp add: agent_resolved [OF that] Let_def kept_head)
  show ?thesis
    using read_first [OF a, of rt] read_first [OF b, of rt] a b by simp
qed

theorem record_then_get_first_witness:
  "at_index (recentSearches (snd (callTool demo_runtime
       (answering (JObj [(''result'', JObj [(''answer'', JStr ''X'')])]) ''t3'') ''search''
       (JObj [(''query'', JStr ''What is blockchain?'')]) two_entries))) 0 =
     Some \<lparr>query = JStr ''What is blockchain?'',
           response = JObj [(''result'', JObj [(''answer'', JStr ''X'')])],
           timestamp = ''t3''\<rparr> \<and>
   at_index (recentSearches (snd (callTool demo_runtime
       (answering (JStr ''a'') ''t3'') ''agent''
       (JObj [(''prompt'', JStr ''Tell me about Ethereum'')]) two_entries))) 0 =
     Some \<lparr>query = JStr ''Tell me about Ethereum'', response = JStr ''a'', timestamp = ''t3''\<rparr>"
  using record_then_get_first
          [where args = "JObj [(''query'', JStr ''What is blockchain?'')]"
             and e = "answering (JObj [(''result'', JObj [(''answer'', JStr ''X'')])]) ''t3''"
             and res = "\<lparr>status = 200,
                         data = JObj [(''result'', JObj [(''answer'', JStr ''X'')])]\<rparr>"
             and rt = demo_runtime and s = two_entries]
        record_then_get_first
          [where args = "JObj [(''prompt'', JStr ''Tell me about Ethereum'')]"
             and e = "answering (JStr ''a'') ''t3''"
             and res = "\<lparr>status = 200, data = JStr ''a''\<rparr>"
             and rt = demo_runtime and s = two_entries]
  by (simp add: world_defs isValidSearchArgs_def)

end
